theory Spec2Isabelle
  imports Main "HOL-Library.AList"
begin

section \<open>JavaScript values\<close>

text \<open>
  The two handlers pass JSON through without looking inside it; the only operations they
  apply to a value are the truthiness test (\<open>!v\<close>) and one property read
  (\<open>v.contents\<close>). A number is kept in its IEEE shape (sign, magnitude, exponent, the
  infinities and NaN) without its arithmetic: all that is asked of it is whether it is
  zero or NaN.
\<close>

datatype number = Finite bool nat int | Infinite bool | NaN

datatype jsval =
    JUndefined
  | JNull
  | JBool bool
  | JNum number
  | JStr string
  | JArr "jsval list"
  | JObj "(string \<times> jsval) list"

datatype js_error = Error (message: string)

text \<open>\<open>truthy v\<close> is JavaScript's ToBoolean: \<open>!v\<close> is its negation.\<close>

fun truthy :: "jsval \<Rightarrow> bool" where
  "truthy JUndefined = False"
| "truthy JNull = False"
| "truthy (JBool b) = b"
| "truthy (JNum (Finite s m e)) = (m \<noteq> 0)"
| "truthy (JNum (Infinite s)) = True"
| "truthy (JNum NaN) = False"
| "truthy (JStr s) = (s \<noteq> [])"
| "truthy (JArr vs) = True"
| "truthy (JObj fs) = True"

text \<open>
  \<open>member v n\<close> is the property read \<open>v.n\<close> for a name that no built-in prototype
  defines (the source reads \<open>.contents\<close> only): an object yields its own property or
  \<open>undefined\<close>, every other value \<open>undefined\<close>. On \<open>undefined\<close> and \<open>null\<close>
  JavaScript throws a TypeError instead; the one read in the source stands behind
  \<open>!incomingPayload ||\<close>, which never lets it run on them (lemma \<open>truthy_not_nullish\<close>).
\<close>

fun member :: "jsval \<Rightarrow> string \<Rightarrow> jsval" where
  "member (JObj fs) n = (case map_of fs n of Some v \<Rightarrow> v | None \<Rightarrow> JUndefined)"
| "member v n = JUndefined"

section \<open>The HTTP objects\<close>

text \<open>The inbound request, as far as the handlers read it.\<close>

record request =
  "method" :: string
  body :: jsval

text \<open>
  The response object handed to a handler. \<open>headers\<close> holds what \<open>setHeader\<close> stored,
  \<open>sent\<close> what was written: nothing yet, an empty body (\<open>end()\<close>) or a JSON value
  (\<open>json(v)\<close>, which serialises \<open>v\<close>).
\<close>

datatype sent_body = Unsent | Empty | Json jsval

record response =
  headers :: "(string \<times> string) list"
  statusCode :: nat
  sent :: sent_body

definition new_response :: response where
  "new_response = \<lparr>headers = [], statusCode = 200, sent = Unsent\<rparr>"

definition setHeader :: "string \<Rightarrow> string \<Rightarrow> response \<Rightarrow> response" where
  "setHeader name val r = r\<lparr>headers := AList.update name val (headers r)\<rparr>"

definition res_status :: "nat \<Rightarrow> response \<Rightarrow> response" where
  "res_status code r = r\<lparr>statusCode := code\<rparr>"

definition res_json :: "jsval \<Rightarrow> response \<Rightarrow> response" where
  "res_json v r = r\<lparr>sent := Json v\<rparr>"

definition res_end :: "response \<Rightarrow> response" where
  "res_end r = r\<lparr>sent := Empty\<rparr>"

text \<open>
  An outbound call \<open>fetch(url, init)\<close>. \<open>fetch_body = Some v\<close> stands for the body
  \<open>JSON.stringify(v)\<close>.
\<close>

record upstream_request =
  url :: string
  fetch_method :: string
  fetch_headers :: "(string \<times> string) list"
  fetch_body :: "jsval option"

text \<open>
  What an upstream answers: the status line, and what reading the body settles to,
  as text (\<open>.text()\<close>) and as parsed JSON (\<open>.json()\<close>); either read can reject.
\<close>

record upstream_response =
  status :: nat
  statusText :: string
  body_text :: "js_error + string"
  body_json :: "js_error + jsval"

text \<open>\<open>Response.ok\<close> of the Fetch standard: the status is in the range 200 to 299.\<close>

definition ok :: "upstream_response \<Rightarrow> bool" where
  "ok r = (200 \<le> status r \<and> status r \<le> 299)"

text \<open>\<open>fetch\<close> either rejects (the call itself fails) or resolves to a response.\<close>

datatype fetch_result = Rejected js_error | Responded upstream_response

type_synonym fetcher = "upstream_request \<Rightarrow> fetch_result"

text \<open>
  What one invocation of a handler leaves behind: the response, the outbound calls it
  made (in call order) and the lines written with \<open>console.error\<close> (label, detail).
\<close>

record outcome =
  resp :: response
  outbound :: "upstream_request list"
  console :: "(string \<times> string) list"

section \<open>api/data.js: the aggregator\<close>

definition API_BASE :: string where
  "API_BASE = ''https://api.koios.rest/api/v1''"

definition SPO_DATA_URL :: string where
  "SPO_DATA_URL = ''https://gist.githubusercontent.com/Thomas-nada/7b742a3ca9e42281ae831b3da689c0b5/raw/fcf93ff7fae331a329f2ed69267bdf44e29f021e/governance-report.csv''"

definition DREP_DATA_URL :: string where
  "DREP_DATA_URL = ''https://gist.githubusercontent.com/Thomas-nada/28f6ba461017efcb5ab942964776923e/raw/509ad05637b91d228b2bf0b6e26cd38d9641dd4d/drep_directory.json''"

text \<open>\<open>fetch(url)\<close> with no init: a GET without headers or body.\<close>

definition get_request :: "string \<Rightarrow> upstream_request" where
  "get_request u = \<lparr>url = u, fetch_method = ''GET'', fetch_headers = [], fetch_body = None\<rparr>"

text \<open>
  The two helpers. A settled promise is a sum: \<open>Inl\<close> the rejection, \<open>Inr\<close> the value.
\<close>

definition fetchJson :: "fetcher \<Rightarrow> string \<Rightarrow> js_error + jsval" where
  "fetchJson fetch u =
     (case fetch (get_request u) of
        Rejected e \<Rightarrow> Inl e
      | Responded response \<Rightarrow>
          if \<not> ok response
          then Inl (Error (''Failed to fetch '' @ u @ '': '' @ statusText response))
          else body_json response)"

definition fetchText :: "fetcher \<Rightarrow> string \<Rightarrow> js_error + jsval" where
  "fetchText fetch u =
     (case fetch (get_request u) of
        Rejected e \<Rightarrow> Inl e
      | Responded response \<Rightarrow>
          if \<not> ok response
          then Inl (Error (''Failed to fetch '' @ u @ '': '' @ statusText response))
          else (case body_text response of Inl e \<Rightarrow> Inl e | Inr t \<Rightarrow> Inr (JStr t)))"

text \<open>
  \<open>Promise.all\<close>. The promises run concurrently; \<open>order\<close> lists their indices in the
  order in which they settle, which the scheduler and the network decide. The result
  rejects with the rejection that comes first in that order, and otherwise fulfils with
  all values in array order. (An \<open>order\<close> that leaves out a rejected promise falls back
  to array order, so that the function is defined for every list.)
\<close>

fun first_rejection :: "nat list \<Rightarrow> ('e + 'a) list \<Rightarrow> 'e option" where
  "first_rejection [] ps = None"
| "first_rejection (i # js) ps =
     (if i < length ps
      then (case ps ! i of Inl e \<Rightarrow> Some e | Inr v \<Rightarrow> first_rejection js ps)
      else first_rejection js ps)"

fun all_fulfilled :: "('e + 'a) list \<Rightarrow> 'e + 'a list" where
  "all_fulfilled [] = Inr []"
| "all_fulfilled (Inl e # ps) = Inl e"
| "all_fulfilled (Inr v # ps) =
     (case all_fulfilled ps of Inl e \<Rightarrow> Inl e | Inr vs \<Rightarrow> Inr (v # vs))"

definition Promise_all :: "nat list \<Rightarrow> ('e + 'a) list \<Rightarrow> 'e + 'a list" where
  "Promise_all order ps =
     (case first_rejection order ps of Some e \<Rightarrow> Inl e | None \<Rightarrow> all_fulfilled ps)"

text \<open>Array destructuring \<open>const [a, b, c] = vs\<close>: a missing position is \<open>undefined\<close>.\<close>

definition element :: "jsval list \<Rightarrow> nat \<Rightarrow> jsval" where
  "element vs i = (if i < length vs then vs ! i else JUndefined)"

text \<open>The three calls handed to \<open>Promise.all\<close>, and the URLs they fetch.\<close>

definition upstream_urls :: "string list" where
  "upstream_urls = [SPO_DATA_URL, DREP_DATA_URL, API_BASE @ ''/proposal_list'']"

definition upstream_calls :: "fetcher \<Rightarrow> (js_error + jsval) list" where
  "upstream_calls fetch =
     [fetchText fetch SPO_DATA_URL,
      fetchJson fetch DREP_DATA_URL,
      fetchJson fetch (API_BASE @ ''/proposal_list'')]"

definition cors_response :: response where
  "cors_response =
     setHeader ''Access-Control-Allow-Headers'' ''Content-Type''
       (setHeader ''Access-Control-Allow-Methods'' ''GET, OPTIONS''
         (setHeader ''Access-Control-Allow-Origin'' ''*'' new_response))"

definition handler_data :: "request \<Rightarrow> fetcher \<Rightarrow> nat list \<Rightarrow> outcome" where
  "handler_data request fetch order =
     (let response = cors_response in
      if method request = ''OPTIONS''
      then \<lparr>resp = res_end (res_status 200 response), outbound = [], console = []\<rparr>
      else
        (case Promise_all order (upstream_calls fetch) of
           Inr vs \<Rightarrow>
             (let spoDataCsv = element vs 0; drepData = element vs 1;
                  proposalList = element vs 2
              in \<lparr>resp = res_json (JObj [(''spoDataCsv'', spoDataCsv),
                                         (''drepData'', drepData),
                                         (''proposalList'', proposalList)])
                          (res_status 200 response),
                  outbound = map get_request upstream_urls,
                  console = []\<rparr>)
         | Inl error \<Rightarrow>
             \<lparr>resp = res_json (JObj [(''error'', JStr ''Failed to fetch initial data.''),
                                     (''details'', JStr (message error))])
                      (res_status 500 response),
              outbound = map get_request upstream_urls,
              console = [(''Error fetching initial data:'', message error)]\<rparr>))"

section \<open>The secure relay (the Gemini proxy)\<close>

text \<open>The fixed part of the upstream URL; the key is appended to it.\<close>

definition GEMINI_ENDPOINT :: string where
  "GEMINI_ENDPOINT = ''https://generativelanguage.googleapis.com/v1beta/models/gemini-2.5-flash-preview-05-20:generateContent?key=''"

definition gemini_request :: "string \<Rightarrow> jsval \<Rightarrow> upstream_request" where
  "gemini_request apiKey incomingPayload =
     \<lparr>url = GEMINI_ENDPOINT @ apiKey,
      fetch_method = ''POST'',
      fetch_headers = [(''Content-Type'', ''application/json'')],
      fetch_body = Some incomingPayload\<rparr>"

definition error_body :: "string \<Rightarrow> jsval" where
  "error_body msg = JObj [(''error'', JStr msg)]"

text \<open>The \<open>catch\<close> block of the relay, entered from the call \<open>rq\<close>.\<close>

definition relay_catch :: "upstream_request \<Rightarrow> js_error \<Rightarrow> outcome" where
  "relay_catch rq error =
     \<lparr>resp = res_json (error_body ''Failed to fetch from Gemini API.'')
              (res_status 500 new_response),
      outbound = [rq],
      console = [(''Error proxying request to Gemini:'', message error)]\<rparr>"

text \<open>
  \<open>env\<close> is \<open>process.env\<close>: a variable is a string or is not set. \<open>!apiKey\<close> holds for
  a variable that is not set and for the empty string.
\<close>

definition handler_relay :: "request \<Rightarrow> (string \<rightharpoonup> string) \<Rightarrow> fetcher \<Rightarrow> outcome" where
  "handler_relay request env fetch =
     (if method request \<noteq> ''POST''
      then \<lparr>resp = res_json (error_body ''Method Not Allowed'') (res_status 405 new_response),
            outbound = [], console = []\<rparr>
      else
        let incomingPayload = body request in
        if \<not> truthy incomingPayload \<or> \<not> truthy (member incomingPayload ''contents'')
        then \<lparr>resp = res_json (error_body ''Invalid request body'')
                      (res_status 400 new_response),
              outbound = [], console = []\<rparr>
        else
          (case env ''GEMINI_API_KEY'' of
             None \<Rightarrow>
               \<lparr>resp = res_json (error_body ''API key not configured on the server.'')
                        (res_status 500 new_response),
                outbound = [], console = []\<rparr>
           | Some apiKey \<Rightarrow>
               if apiKey = []
               then \<lparr>resp = res_json (error_body ''API key not configured on the server.'')
                             (res_status 500 new_response),
                     outbound = [], console = []\<rparr>
               else
                 let rq = gemini_request apiKey incomingPayload in
                 (case fetch rq of
                    Rejected error \<Rightarrow> relay_catch rq error
                  | Responded geminiResponse \<Rightarrow>
                      if \<not> ok geminiResponse
                      then
                        (case body_text geminiResponse of
                           Inl error \<Rightarrow> relay_catch rq error
                         | Inr errorBody \<Rightarrow>
                             \<lparr>resp = res_json (error_body (''Gemini API error: '' @ errorBody))
                                      (res_status (status geminiResponse) new_response),
                              outbound = [rq],
                              console = [(''Gemini API Error:'', errorBody)]\<rparr>)
                      else
                        (case body_json geminiResponse of
                           Inl error \<Rightarrow> relay_catch rq error
                         | Inr data \<Rightarrow>
                             \<lparr>resp = res_json data (res_status 200 new_response),
                              outbound = [rq],
                              console = []\<rparr>))))"

section \<open>Predicates of the specification\<close>

text \<open>
  \<open>str_includes s k\<close>: the string \<open>k\<close> occurs in \<open>s\<close> as a contiguous substring (JavaScript's
  \<open>s.includes(k)\<close>).
\<close>

fun starts_with :: "string \<Rightarrow> string \<Rightarrow> bool" where
  "starts_with s [] = True"
| "starts_with [] (c # k) = False"
| "starts_with (d # s) (c # k) = (d = c \<and> starts_with s k)"

fun str_includes :: "string \<Rightarrow> string \<Rightarrow> bool" where
  "str_includes [] k = (k = [])"
| "str_includes (d # s) k = (starts_with (d # s) k \<or> str_includes s k)"

text \<open>The body has an own property named \<open>n\<close>.\<close>

fun has_field :: "jsval \<Rightarrow> string \<Rightarrow> bool" where
  "has_field (JObj fs) n = (n \<in> fst ` set fs)"
| "has_field v n = False"

text \<open>The property names of the JSON object that was sent, if one was.\<close>

fun field_names :: "sent_body \<Rightarrow> string list" where
  "field_names (Json (JObj fs)) = map fst fs"
| "field_names b = []"

text \<open>
  The body is an object whose own property \<open>contents\<close> is truthy: present, and none of
  \<open>undefined\<close>, \<open>null\<close>, \<open>false\<close>, zero, NaN and the empty string.
\<close>

fun contents_truthy :: "jsval \<Rightarrow> bool" where
  "contents_truthy (JObj fs) =
     (case map_of fs ''contents'' of Some c \<Rightarrow> truthy c | None \<Rightarrow> False)"
| "contents_truthy v = False"

text \<open>
  What the upstream at \<open>u\<close> returned, if the call succeeded: it responded with a success
  status and its body could be read (as text, as JSON).
\<close>

definition upstream_text :: "fetcher \<Rightarrow> string \<Rightarrow> string option" where
  "upstream_text fetch u =
     (case fetch (get_request u) of
        Rejected e \<Rightarrow> None
      | Responded r \<Rightarrow>
          if ok r then (case body_text r of Inl e \<Rightarrow> None | Inr t \<Rightarrow> Some t) else None)"

definition upstream_json :: "fetcher \<Rightarrow> string \<Rightarrow> jsval option" where
  "upstream_json fetch u =
     (case fetch (get_request u) of
        Rejected e \<Rightarrow> None
      | Responded r \<Rightarrow>
          if ok r then (case body_json r of Inl e \<Rightarrow> None | Inr v \<Rightarrow> Some v) else None)"

text \<open>The three cross-origin headers, in the order in which the aggregator sets them.\<close>

definition cors_headers :: "(string \<times> string) list" where
  "cors_headers =
     [(''Access-Control-Allow-Origin'', ''*''),
      (''Access-Control-Allow-Methods'', ''GET, OPTIONS''),
      (''Access-Control-Allow-Headers'', ''Content-Type'')]"

section \<open>Sample upstreams\<close>

text \<open>
  Replies used to run the handlers on concrete inputs: a body that is text but no JSON,
  and a body that is the JSON text of a value.
\<close>

definition text_reply :: "nat \<Rightarrow> string \<Rightarrow> string \<Rightarrow> fetch_result" where
  "text_reply code line t =
     Responded \<lparr>status = code, statusText = line, body_text = Inr t,
                body_json = Inl (Error ''Unexpected token'')\<rparr>"

definition json_reply :: "nat \<Rightarrow> string \<Rightarrow> string \<Rightarrow> jsval \<Rightarrow> fetch_result" where
  "json_reply code line t v =
     Responded \<lparr>status = code, statusText = line, body_text = Inr t, body_json = Inr v\<rparr>"

text \<open>All three sources of the aggregator answer.\<close>

definition upstreams_up :: fetcher where
  "upstreams_up rq =
     (if url rq = SPO_DATA_URL then text_reply 200 ''OK'' ''pool,vote''
      else if url rq = DREP_DATA_URL then json_reply 200 ''OK'' ''[]'' (JArr [])
      else json_reply 200 ''OK'' ''[true]'' (JArr [JBool True]))"

text \<open>The directory file is gone (404); the other two sources answer.\<close>

definition directory_missing :: fetcher where
  "directory_missing rq =
     (if url rq = DREP_DATA_URL then text_reply 404 ''Not Found'' ''404: Not Found''
      else upstreams_up rq)"

definition sample_get :: request where
  "sample_get = \<lparr>method = ''GET'', body = JUndefined\<rparr>"

text \<open>A well-formed prompt for the relay, and a configuration that holds a key.\<close>

definition sample_post :: request where
  "sample_post =
     \<lparr>method = ''POST'',
      body = JObj [(''contents'',
                    JArr [JObj [(''parts'', JArr [JObj [(''text'', JStr ''Hello'')]])]])]\<rparr>"

definition key_env :: "string \<rightharpoonup> string" where
  "key_env = [''GEMINI_API_KEY'' \<mapsto> ''SECRET'']"

text \<open>
  Four behaviours of the generative upstream: out of quota (503), answering (200),
  rejecting the call with an error text that repeats the URL it was called with (400),
  and not reachable at all.
\<close>

definition gemini_quota :: fetcher where
  "gemini_quota rq = text_reply 503 ''Service Unavailable'' ''quota exceeded''"

definition gemini_answers :: fetcher where
  "gemini_answers rq =
     json_reply 200 ''OK'' ''{\"candidates\":[]}'' (JObj [(''candidates'', JArr [])])"

definition gemini_echo :: fetcher where
  "gemini_echo rq = text_reply 400 ''Bad Request'' (url rq)"

definition gemini_unreachable :: fetcher where
  "gemini_unreachable rq = Rejected (Error ''fetch failed'')"

text \<open>
  Two replies whose body lets the relay down: a success status over a body that is no
  JSON, and a 502 whose body breaks off while it is read.
\<close>

definition gemini_garbled :: fetcher where
  "gemini_garbled rq = text_reply 200 ''OK'' ''<html>''"

definition gemini_broken :: fetcher where
  "gemini_broken rq =
     Responded \<lparr>status = 502, statusText = ''Bad Gateway'',
                body_text = Inl (Error ''terminated''),
                body_json = Inl (Error ''terminated'')\<rparr>"

section \<open>Facts about the building blocks\<close>

lemma truthy_not_nullish: "truthy v \<Longrightarrow> v \<noteq> JUndefined \<and> v \<noteq> JNull"
  by (cases v) auto

lemma all_fulfilled_map_Inr: "all_fulfilled (map Inr vs) = Inr vs"
  by (induction vs) simp_all

lemma all_fulfilled_InrD: "all_fulfilled ps = Inr vs \<Longrightarrow> ps = map Inr vs"
proof (induction ps arbitrary: vs)
  case Nil
  then show ?case by simp
next
  case (Cons p ps)
  show ?case
  proof (cases p)
    case (Inl e)
    with Cons.prems show ?thesis by simp
  next
    case (Inr v)
    with Cons.prems obtain ws where ws: "all_fulfilled ps = Inr ws" and vs: "vs = v # ws"
      by (cases "all_fulfilled ps") auto
    from Cons.IH [OF ws] Inr vs show ?thesis by simp
  qed
qed

lemma all_fulfilled_Inl: "all_fulfilled ps = Inl e \<Longrightarrow> Inl e \<in> set ps"
proof (induction ps)
  case Nil
  then show ?case by simp
next
  case (Cons p ps)
  then show ?case by (cases p) (auto split: sum.splits)
qed

lemma first_rejection_Some: "first_rejection order ps = Some e \<Longrightarrow> Inl e \<in> set ps"
proof (induction order)
  case Nil
  then show ?case by simp
next
  case (Cons i js)
  show ?case
  proof (cases "i < length ps")
    case False
    with Cons show ?thesis by simp
  next
    case True
    show ?thesis
    proof (cases "ps ! i")
      case (Inl e')
      with True Cons.prems have "e' = e" by simp
      with Inl True show ?thesis by (metis nth_mem)
    next
      case (Inr v)
      with True Cons show ?thesis by simp
    qed
  qed
qed

lemma first_rejection_map_Inr: "first_rejection order (map Inr vs) = None"
  by (induction order) auto

text \<open>\<open>Promise.all\<close> fulfils exactly when every promise does, with their values.\<close>

lemma Promise_all_Inr: "Promise_all order ps = Inr vs \<longleftrightarrow> ps = map Inr vs"
proof
  assume "Promise_all order ps = Inr vs"
  then have "all_fulfilled ps = Inr vs"
    by (simp add: Promise_all_def split: option.splits)
  then show "ps = map Inr vs" by (rule all_fulfilled_InrD)
next
  assume "ps = map Inr vs"
  then show "Promise_all order ps = Inr vs"
    by (simp add: Promise_all_def first_rejection_map_Inr all_fulfilled_map_Inr)
qed

text \<open>When it rejects, it does so with the rejection of one of the promises.\<close>

lemma Promise_all_Inl: "Promise_all order ps = Inl e \<Longrightarrow> Inl e \<in> set ps"
  by (auto simp: Promise_all_def split: option.splits
      dest: first_rejection_Some all_fulfilled_Inl)

lemma Promise_all_rejects:
  assumes "\<exists>p \<in> set ps. isl p"
  shows "\<exists>e. Promise_all order ps = Inl e \<and> Inl e \<in> set ps"
proof (cases "Promise_all order ps")
  case (Inl e)
  from Promise_all_Inl [OF Inl] Inl show ?thesis by simp
next
  case (Inr vs)
  then have "ps = map Inr vs" by (simp add: Promise_all_Inr)
  with assms show ?thesis by auto
qed

lemma headers_cors_response: "headers cors_response = cors_headers"
  by (simp add: cors_response_def cors_headers_def setHeader_def new_response_def)

lemma fetchText_Inr:
  "fetchText fetch u = Inr v \<longleftrightarrow> (\<exists>t. upstream_text fetch u = Some t \<and> v = JStr t)"
  by (auto simp: fetchText_def upstream_text_def split: fetch_result.splits sum.splits)

lemma fetchJson_Inr: "fetchJson fetch u = Inr v \<longleftrightarrow> upstream_json fetch u = Some v"
  by (auto simp: fetchJson_def upstream_json_def split: fetch_result.splits sum.splits)

lemma upstream_calls_values:
  "upstream_calls fetch = map Inr vs \<longleftrightarrow>
     (\<exists>csv d p. vs = [JStr csv, d, p] \<and> upstream_text fetch SPO_DATA_URL = Some csv
        \<and> upstream_json fetch DREP_DATA_URL = Some d
        \<and> upstream_json fetch (API_BASE @ ''/proposal_list'') = Some p)"
proof -
  have "upstream_calls fetch = map Inr vs \<longleftrightarrow>
      (\<exists>a b c. vs = [a, b, c] \<and> fetchText fetch SPO_DATA_URL = Inr a
         \<and> fetchJson fetch DREP_DATA_URL = Inr b
         \<and> fetchJson fetch (API_BASE @ ''/proposal_list'') = Inr c)"
    unfolding upstream_calls_def by (auto simp: map_eq_Cons_conv)
  then show ?thesis
    unfolding fetchText_Inr fetchJson_Inr by auto
qed

lemma upstream_calls_rejection:
  "(\<exists>c \<in> set (upstream_calls fetch). isl c) \<longleftrightarrow>
     (upstream_text fetch SPO_DATA_URL = None \<or> upstream_json fetch DREP_DATA_URL = None
      \<or> upstream_json fetch (API_BASE @ ''/proposal_list'') = None)"
proof -
  have t: "isl (fetchText fetch u) \<longleftrightarrow> upstream_text fetch u = None" for u
    by (auto simp: fetchText_def upstream_text_def split: fetch_result.splits sum.splits)
  have j: "isl (fetchJson fetch u) \<longleftrightarrow> upstream_json fetch u = None" for u
    by (auto simp: fetchJson_def upstream_json_def split: fetch_result.splits sum.splits)
  show ?thesis by (simp add: upstream_calls_def t j)
qed

lemma handler_data_fulfilled:
  assumes "method request \<noteq> ''OPTIONS''"
    and "upstream_text fetch SPO_DATA_URL = Some csv"
    and "upstream_json fetch DREP_DATA_URL = Some d"
    and "upstream_json fetch (API_BASE @ ''/proposal_list'') = Some p"
  shows "resp (handler_data request fetch order) =
           \<lparr>headers = cors_headers, statusCode = 200,
            sent = Json (JObj [(''spoDataCsv'', JStr csv), (''drepData'', d),
                               (''proposalList'', p)])\<rparr>"
proof -
  have "upstream_calls fetch = map Inr [JStr csv, d, p]"
    unfolding upstream_calls_values using assms(2-4) by simp
  then have "Promise_all order (upstream_calls fetch) = Inr [JStr csv, d, p]"
    by (simp only: Promise_all_Inr)
  with assms(1) show ?thesis
    by (simp add: handler_data_def element_def res_json_def res_status_def
        headers_cors_response [symmetric])
qed

lemma handler_data_rejected:
  assumes "method request \<noteq> ''OPTIONS''"
    and "Promise_all order (upstream_calls fetch) = Inl e"
  shows "resp (handler_data request fetch order) =
           \<lparr>headers = cors_headers, statusCode = 500,
            sent = Json (JObj [(''error'', JStr ''Failed to fetch initial data.''),
                               (''details'', JStr (message e))])\<rparr>"
  using assms
  by (simp add: handler_data_def res_json_def res_status_def headers_cors_response [symmetric])

lemma handler_data_status_200:
  assumes "method request \<noteq> ''OPTIONS''"
  shows "statusCode (resp (handler_data request fetch order)) = 200 \<longleftrightarrow>
           (upstream_text fetch SPO_DATA_URL \<noteq> None \<and> upstream_json fetch DREP_DATA_URL \<noteq> None
            \<and> upstream_json fetch (API_BASE @ ''/proposal_list'') \<noteq> None)"
proof (cases "Promise_all order (upstream_calls fetch)")
  case (Inl e)
  then have "Inl e \<in> set (upstream_calls fetch)" by (rule Promise_all_Inl)
  then have "\<exists>c \<in> set (upstream_calls fetch). isl c" by force
  then have "\<not> (upstream_text fetch SPO_DATA_URL \<noteq> None \<and> upstream_json fetch DREP_DATA_URL \<noteq> None
            \<and> upstream_json fetch (API_BASE @ ''/proposal_list'') \<noteq> None)"
    unfolding upstream_calls_rejection by simp
  moreover have "statusCode (resp (handler_data request fetch order)) = 500"
    using handler_data_rejected [OF assms Inl] by simp
  ultimately show ?thesis by simp
next
  case (Inr vs)
  then have "upstream_calls fetch = map Inr vs" by (simp only: Promise_all_Inr)
  then obtain csv d p where v: "upstream_text fetch SPO_DATA_URL = Some csv"
      "upstream_json fetch DREP_DATA_URL = Some d"
      "upstream_json fetch (API_BASE @ ''/proposal_list'') = Some p"
    unfolding upstream_calls_values by blast
  from handler_data_fulfilled [OF assms v] v show ?thesis by simp
qed

lemma upstream_calls_not_ok:
  assumes "i < 3" and "fetch (get_request (upstream_urls ! i)) = Responded r" and "\<not> ok r"
  shows "upstream_calls fetch ! i =
           Inl (Error (''Failed to fetch '' @ upstream_urls ! i @ '': '' @ statusText r))"
proof -
  from assms(1) consider "i = 0" | "i = 1" | "i = 2" by linarith
  then show ?thesis
  proof cases
    case 1
    with assms(2,3) show ?thesis
      by (simp add: upstream_calls_def upstream_urls_def fetchText_def)
  next
    case 2
    with assms(2,3) show ?thesis
      by (simp add: upstream_calls_def upstream_urls_def fetchJson_def)
  next
    case 3
    with assms(2,3) show ?thesis
      by (simp add: upstream_calls_def upstream_urls_def fetchJson_def)
  qed
qed

lemma length_upstream_calls: "length (upstream_calls fetch) = 3"
  by (simp add: upstream_calls_def)

text \<open>The sample upstreams, run through the helpers.\<close>

lemma upstreams_up_values:
  "upstream_text upstreams_up SPO_DATA_URL = Some ''pool,vote''"
  "upstream_json upstreams_up DREP_DATA_URL = Some (JArr [])"
  "upstream_json upstreams_up (API_BASE @ ''/proposal_list'') = Some (JArr [JBool True])"
  by (simp_all add: upstream_text_def upstream_json_def upstreams_up_def get_request_def
        text_reply_def json_reply_def ok_def SPO_DATA_URL_def DREP_DATA_URL_def API_BASE_def)

lemma directory_missing_calls:
  "fetchText directory_missing SPO_DATA_URL = Inr (JStr ''pool,vote'')"
  "fetchJson directory_missing (API_BASE @ ''/proposal_list'') = Inr (JArr [JBool True])"
  by (simp_all add: fetchText_def fetchJson_def directory_missing_def upstreams_up_def
        get_request_def text_reply_def json_reply_def ok_def
        SPO_DATA_URL_def DREP_DATA_URL_def API_BASE_def)

section \<open>The aggregator's claims\<close>

text \<open>
  Claim C1. The failure path of the aggregator is all-or-nothing: for every request
  other than OPTIONS in which at least one of the three upstream calls (the CSV text,
  the directory JSON, the proposal list JSON) fails, the response has status 500 and the
  JSON body \<open>{error: 'Failed to fetch initial data.', details: m}\<close>, where \<open>m\<close> is the
  message of the rejection of one of the three calls; the body has these two fields only,
  so none of \<open>spoDataCsv\<close>, \<open>drepData\<close>, \<open>proposalList\<close>. This holds for every order in
  which the calls settle.
\<close>

theorem aggregator_failure_all_or_nothing:
  assumes "method request \<noteq> ''OPTIONS''"
    and "upstream_text fetch SPO_DATA_URL = None \<or> upstream_json fetch DREP_DATA_URL = None
         \<or> upstream_json fetch (API_BASE @ ''/proposal_list'') = None"
  shows "\<exists>e. Inl e \<in> set (upstream_calls fetch)
           \<and> resp (handler_data request fetch order) =
               \<lparr>headers = cors_headers, statusCode = 500,
                sent = Json (JObj [(''error'', JStr ''Failed to fetch initial data.''),
                                   (''details'', JStr (message e))])\<rparr>
           \<and> field_names (sent (resp (handler_data request fetch order))) = [''error'', ''details'']"
proof -
  from assms(2) have "\<exists>c \<in> set (upstream_calls fetch). isl c"
    by (simp only: upstream_calls_rejection)
  then obtain e where e: "Promise_all order (upstream_calls fetch) = Inl e"
    and mem: "Inl e \<in> set (upstream_calls fetch)"
    using Promise_all_rejects by blast
  from handler_data_rejected [OF assms(1) e] mem show ?thesis by auto
qed

theorem aggregator_failure_witness:
  "\<exists>e. Inl e \<in> set (upstream_calls directory_missing)
      \<and> resp (handler_data sample_get directory_missing [2, 0, 1]) =
          \<lparr>headers = cors_headers, statusCode = 500,
           sent = Json (JObj [(''error'', JStr ''Failed to fetch initial data.''),
                              (''details'', JStr (message e))])\<rparr>
      \<and> field_names (sent (resp (handler_data sample_get directory_missing [2, 0, 1])))
          = [''error'', ''details'']"
proof -
  have m: "method sample_get \<noteq> ''OPTIONS''" by (simp add: sample_get_def)
  have f: "upstream_text directory_missing SPO_DATA_URL = None
      \<or> upstream_json directory_missing DREP_DATA_URL = None
      \<or> upstream_json directory_missing (API_BASE @ ''/proposal_list'') = None"
    by (simp add: upstream_json_def directory_missing_def get_request_def text_reply_def ok_def)
  show ?thesis by (rule aggregator_failure_all_or_nothing [OF m f])
qed

text \<open>
  Claim C2. The success path of the aggregator: for every request other than OPTIONS the
  response has status 200 if and only if all three upstream calls succeed, and then its
  body is the JSON object with exactly the fields \<open>spoDataCsv\<close>, \<open>drepData\<close> and
  \<open>proposalList\<close>, holding what the upstreams returned: the CSV as the text it is, the
  two JSON values as they were parsed.
\<close>

theorem aggregator_success_iff:
  assumes "method request \<noteq> ''OPTIONS''"
  shows "(statusCode (resp (handler_data request fetch order)) = 200 \<longleftrightarrow>
            (upstream_text fetch SPO_DATA_URL \<noteq> None
             \<and> upstream_json fetch DREP_DATA_URL \<noteq> None
             \<and> upstream_json fetch (API_BASE @ ''/proposal_list'') \<noteq> None))
       \<and> (upstream_text fetch SPO_DATA_URL = Some csv
            \<and> upstream_json fetch DREP_DATA_URL = Some d
            \<and> upstream_json fetch (API_BASE @ ''/proposal_list'') = Some p
          \<longrightarrow> resp (handler_data request fetch order) =
                \<lparr>headers = cors_headers, statusCode = 200,
                 sent = Json (JObj [(''spoDataCsv'', JStr csv), (''drepData'', d),
                                    (''proposalList'', p)])\<rparr>)"
  using handler_data_status_200 [OF assms] handler_data_fulfilled [OF assms]
  by blast

theorem aggregator_success_witness:
  "statusCode (resp (handler_data sample_get upstreams_up [1, 2, 0])) = 200
   \<and> resp (handler_data sample_get upstreams_up [1, 2, 0]) =
        \<lparr>headers = cors_headers, statusCode = 200,
         sent = Json (JObj [(''spoDataCsv'', JStr ''pool,vote''), (''drepData'', JArr []),
                            (''proposalList'', JArr [JBool True])])\<rparr>"
proof -
  have m: "method sample_get \<noteq> ''OPTIONS''" by (simp add: sample_get_def)
  show ?thesis
    using aggregator_success_iff [OF m, of upstreams_up "[1, 2, 0]" "''pool,vote''" "JArr []"
        "JArr [JBool True]"] upstreams_up_values
    by simp
qed

text \<open>
  Claim C9. Every response of the aggregator, on the OPTIONS, the success and the error
  path alike, carries the headers \<open>Access-Control-Allow-Origin: *\<close>,
  \<open>Access-Control-Allow-Methods: GET, OPTIONS\<close> and
  \<open>Access-Control-Allow-Headers: Content-Type\<close> (and no other header set by the handler);
  an OPTIONS request is answered with status 200 and an empty body, without any upstream
  call.
\<close>

theorem aggregator_cors_on_every_path:
  "headers (resp (handler_data request fetch order)) = cors_headers
   \<and> map_of (headers (resp (handler_data request fetch order))) ''Access-Control-Allow-Origin''
       = Some ''*''
   \<and> map_of (headers (resp (handler_data request fetch order))) ''Access-Control-Allow-Methods''
       = Some ''GET, OPTIONS''
   \<and> map_of (headers (resp (handler_data request fetch order))) ''Access-Control-Allow-Headers''
       = Some ''Content-Type''
   \<and> (method request = ''OPTIONS'' \<longrightarrow>
        statusCode (resp (handler_data request fetch order)) = 200
        \<and> sent (resp (handler_data request fetch order)) = Empty
        \<and> outbound (handler_data request fetch order) = [])"
proof -
  have h: "headers (resp (handler_data request fetch order)) = cors_headers"
    by (simp add: handler_data_def Let_def res_json_def res_status_def res_end_def
        headers_cors_response split: sum.splits)
  have o: "method request = ''OPTIONS'' \<Longrightarrow>
        statusCode (resp (handler_data request fetch order)) = 200
        \<and> sent (resp (handler_data request fetch order)) = Empty
        \<and> outbound (handler_data request fetch order) = []"
    by (simp add: handler_data_def res_status_def res_end_def)
  show ?thesis
    unfolding h using o by (simp add: cors_headers_def)
qed

theorem aggregator_cors_witness:
  "statusCode (resp (handler_data \<lparr>method = ''OPTIONS'', body = JUndefined\<rparr> upstreams_up [])) = 200
   \<and> sent (resp (handler_data \<lparr>method = ''OPTIONS'', body = JUndefined\<rparr> upstreams_up [])) = Empty
   \<and> headers (resp (handler_data \<lparr>method = ''OPTIONS'', body = JUndefined\<rparr> upstreams_up []))
       = cors_headers"
  using aggregator_cors_on_every_path
    [of "\<lparr>method = ''OPTIONS'', body = JUndefined\<rparr>" upstreams_up "[]"]
  by simp

text \<open>
  Claim C10. When exactly one upstream call of the aggregator fails, and it fails with a
  non-success HTTP status, the \<open>details\<close> field of the 500 response is the string
  \<open>'Failed to fetch <url>: <statusText>'\<close> of that upstream: the URL of the failing
  upstream is in the response the client sees. (\<open>i\<close> is the position of the failing call
  among the three.)
\<close>

theorem aggregator_details_name_failing_upstream:
  assumes "method request \<noteq> ''OPTIONS''"
    and "i < 3"
    and "fetch (get_request (upstream_urls ! i)) = Responded r"
    and "\<not> ok r"
    and "\<forall>j<3. j \<noteq> i \<longrightarrow> \<not> isl (upstream_calls fetch ! j)"
  shows "resp (handler_data request fetch order) =
           \<lparr>headers = cors_headers, statusCode = 500,
            sent = Json (JObj [(''error'', JStr ''Failed to fetch initial data.''),
                               (''details'', JStr (''Failed to fetch '' @ upstream_urls ! i
                                                   @ '': '' @ statusText r))])\<rparr>"
proof -
  let ?failure = "Error (''Failed to fetch '' @ upstream_urls ! i @ '': '' @ statusText r)"
  have at_i: "upstream_calls fetch ! i = Inl ?failure"
    using assms(2-4) by (rule upstream_calls_not_ok)
  with assms(2) have "\<exists>c \<in> set (upstream_calls fetch). isl c"
    by (metis length_upstream_calls nth_mem sum.disc(1))
  then obtain e where e: "Promise_all order (upstream_calls fetch) = Inl e"
    and mem: "Inl e \<in> set (upstream_calls fetch)"
    using Promise_all_rejects by blast
  from mem obtain j where j: "j < 3" "upstream_calls fetch ! j = Inl e"
    by (metis in_set_conv_nth length_upstream_calls)
  with assms(5) have "j = i" by force
  with j at_i have "e = ?failure" by simp
  with handler_data_rejected [OF assms(1) e] show ?thesis by simp
qed

theorem aggregator_details_witness:
  "resp (handler_data sample_get directory_missing [0, 1, 2]) =
     \<lparr>headers = cors_headers, statusCode = 500,
      sent = Json (JObj [(''error'', JStr ''Failed to fetch initial data.''),
                         (''details'', JStr (''Failed to fetch '' @ DREP_DATA_URL
                                             @ '': Not Found''))])\<rparr>"
proof -
  let ?r = "\<lparr>status = 404, statusText = ''Not Found'', body_text = Inr ''404: Not Found'',
             body_json = Inl (Error ''Unexpected token'')\<rparr>"
  have m: "method sample_get \<noteq> ''OPTIONS''" by (simp add: sample_get_def)
  have i: "(1::nat) < 3" by simp
  have f: "directory_missing (get_request (upstream_urls ! 1)) = Responded ?r"
    by (simp add: directory_missing_def upstream_urls_def get_request_def text_reply_def)
  have n: "\<not> ok ?r" by (simp add: ok_def)
  have others: "\<forall>j<3. j \<noteq> 1 \<longrightarrow> \<not> isl (upstream_calls directory_missing ! j)"
  proof (intro allI impI)
    fix j :: nat
    assume "j < 3" and "j \<noteq> 1"
    then consider "j = 0" | "j = 2" by linarith
    then show "\<not> isl (upstream_calls directory_missing ! j)"
      by cases (simp_all add: upstream_calls_def directory_missing_calls)
  qed
  from aggregator_details_name_failing_upstream [OF m i f n others, of "[0, 1, 2]"]
  show ?thesis by (simp add: upstream_urls_def)
qed

section \<open>Facts about the relay\<close>

lemma contents_truthy_iff:
  "contents_truthy p \<longleftrightarrow> truthy p \<and> truthy (member p ''contents'')"
  by (cases p) (auto split: option.splits)

lemma response_simps:
  "res_json v (res_status c new_response) = \<lparr>headers = [], statusCode = c, sent = Json v\<rparr>"
  by (simp add: res_json_def res_status_def new_response_def)

text \<open>The paths of the relay, one lemma each.\<close>

lemma relay_not_post:
  "method request \<noteq> ''POST'' \<Longrightarrow>
     handler_relay request env fetch =
       \<lparr>resp = \<lparr>headers = [], statusCode = 405, sent = Json (error_body ''Method Not Allowed'')\<rparr>,
        outbound = [], console = []\<rparr>"
  by (simp add: handler_relay_def response_simps)

lemma relay_invalid:
  "method request = ''POST'' \<Longrightarrow> \<not> contents_truthy (body request) \<Longrightarrow>
     handler_relay request env fetch =
       \<lparr>resp = \<lparr>headers = [], statusCode = 400, sent = Json (error_body ''Invalid request body'')\<rparr>,
        outbound = [], console = []\<rparr>"
  by (auto simp add: handler_relay_def response_simps contents_truthy_iff)

lemma relay_no_key:
  "method request = ''POST'' \<Longrightarrow> contents_truthy (body request) \<Longrightarrow>
   env ''GEMINI_API_KEY'' = None \<or> env ''GEMINI_API_KEY'' = Some [] \<Longrightarrow>
     handler_relay request env fetch =
       \<lparr>resp = \<lparr>headers = [], statusCode = 500,
                sent = Json (error_body ''API key not configured on the server.'')\<rparr>,
        outbound = [], console = []\<rparr>"
  by (auto simp add: handler_relay_def response_simps contents_truthy_iff)

lemma relay_forward:
  assumes "method request = ''POST''" and "contents_truthy (body request)"
    and "env ''GEMINI_API_KEY'' = Some k" and "k \<noteq> []"
  shows "handler_relay request env fetch =
     (let rq = gemini_request k (body request) in
      case fetch rq of
        Rejected error \<Rightarrow> relay_catch rq error
      | Responded geminiResponse \<Rightarrow>
          if \<not> ok geminiResponse
          then (case body_text geminiResponse of
                  Inl error \<Rightarrow> relay_catch rq error
                | Inr errorBody \<Rightarrow>
                    \<lparr>resp = \<lparr>headers = [], statusCode = status geminiResponse,
                             sent = Json (error_body (''Gemini API error: '' @ errorBody))\<rparr>,
                     outbound = [rq], console = [(''Gemini API Error:'', errorBody)]\<rparr>)
          else (case body_json geminiResponse of
                  Inl error \<Rightarrow> relay_catch rq error
                | Inr data \<Rightarrow>
                    \<lparr>resp = \<lparr>headers = [], statusCode = 200, sent = Json data\<rparr>,
                     outbound = [rq], console = []\<rparr>))"
  using assms
  by (simp add: handler_relay_def response_simps contents_truthy_iff Let_def
      split: fetch_result.splits sum.splits)

text \<open>Every invocation is on exactly one of them.\<close>

lemma relay_cases:
  obtains (not_post) "method request \<noteq> ''POST''"
  | (invalid) "method request = ''POST''" "\<not> contents_truthy (body request)"
  | (no_key) "method request = ''POST''" "contents_truthy (body request)"
      "env ''GEMINI_API_KEY'' = None \<or> env ''GEMINI_API_KEY'' = Some []"
  | (forward) k where "method request = ''POST''" "contents_truthy (body request)"
      "env ''GEMINI_API_KEY'' = Some k" "k \<noteq> []"
  by (cases "env ''GEMINI_API_KEY''") auto

text \<open>An outbound call is made on the forward path only, and it is the one call to Gemini.\<close>

lemma relay_outbound:
  assumes "rq \<in> set (outbound (handler_relay request env fetch))"
  obtains k where "method request = ''POST''" "contents_truthy (body request)"
      "env ''GEMINI_API_KEY'' = Some k" "k \<noteq> []" "rq = gemini_request k (body request)"
proof (cases rule: relay_cases [where request = request and env = env])
  case not_post
  with assms show ?thesis by (simp add: relay_not_post)
next
  case invalid
  with assms show ?thesis by (simp add: relay_invalid)
next
  case no_key
  with assms show ?thesis by (simp add: relay_no_key)
next
  case (forward k)
  with assms have "rq = gemini_request k (body request)"
    by (simp add: relay_forward Let_def relay_catch_def split: fetch_result.splits sum.splits if_splits)
  with forward that show ?thesis by blast
qed

lemma relay_400_only_if_invalid:
  assumes "method request = ''POST''"
    and "statusCode (resp (handler_relay request env fetch)) = 400"
    and "sent (resp (handler_relay request env fetch)) = Json (error_body ''Invalid request body'')"
  shows "\<not> contents_truthy (body request)"
proof (cases rule: relay_cases [where request = request and env = env])
  case not_post
  with assms(1) show ?thesis by simp
next
  case invalid
  then show ?thesis by simp
next
  case no_key
  with assms(2) show ?thesis by (simp add: relay_no_key)
next
  case (forward k)
  with assms(2,3) show ?thesis
    by (simp add: relay_forward Let_def relay_catch_def response_simps error_body_def
        split: fetch_result.splits sum.splits if_splits)
qed

text \<open>
  The credential reaches the response through the upstream's answer only: two runs that
  differ in the key and get the same answer send the same response.
\<close>

lemma relay_response_independent_of_credential:
  assumes "env1 ''GEMINI_API_KEY'' = Some k1" and "k1 \<noteq> []"
    and "env2 ''GEMINI_API_KEY'' = Some k2" and "k2 \<noteq> []"
    and "fetch1 (gemini_request k1 (body request)) = fetch2 (gemini_request k2 (body request))"
  shows "resp (handler_relay request env1 fetch1) = resp (handler_relay request env2 fetch2)"
  using assms
  by (simp add: handler_relay_def Let_def relay_catch_def
      split: fetch_result.splits sum.splits)

text \<open>The sample upstreams of the relay are called with the configured key.\<close>

lemma relay_sample_outbound:
  "outbound (handler_relay sample_post key_env gemini_quota)
     = [gemini_request ''SECRET'' (body sample_post)]"
  "outbound (handler_relay sample_post key_env gemini_answers)
     = [gemini_request ''SECRET'' (body sample_post)]"
  "outbound (handler_relay sample_post key_env gemini_unreachable)
     = [gemini_request ''SECRET'' (body sample_post)]"
  "outbound (handler_relay sample_post key_env gemini_garbled)
     = [gemini_request ''SECRET'' (body sample_post)]"
  "outbound (handler_relay sample_post key_env gemini_broken)
     = [gemini_request ''SECRET'' (body sample_post)]"
  by (simp_all add: handler_relay_def sample_post_def key_env_def gemini_quota_def
        gemini_answers_def gemini_unreachable_def gemini_garbled_def gemini_broken_def
        relay_catch_def text_reply_def json_reply_def ok_def)

section \<open>The relay's claims\<close>

text \<open>
  Claim C6. Method check: for every request whose method is not POST the relay answers
  with status 405 and the body \<open>{error: 'Method Not Allowed'}\<close>, and makes no outbound
  call.
\<close>

theorem relay_method_check:
  assumes "method request \<noteq> ''POST''"
  shows "resp (handler_relay request env fetch) =
           \<lparr>headers = [], statusCode = 405,
            sent = Json (JObj [(''error'', JStr ''Method Not Allowed'')])\<rparr>
       \<and> outbound (handler_relay request env fetch) = []"
  using assms by (simp add: relay_not_post error_body_def)

theorem relay_method_check_witness:
  "resp (handler_relay sample_get key_env gemini_answers) =
     \<lparr>headers = [], statusCode = 405,
      sent = Json (JObj [(''error'', JStr ''Method Not Allowed'')])\<rparr>
   \<and> outbound (handler_relay sample_get key_env gemini_answers) = []"
proof -
  have "method sample_get \<noteq> ''POST''" by (simp add: sample_get_def)
  then show ?thesis by (rule relay_method_check)
qed

text \<open>
  Claim C5, as the code has it. Payload validation tests truthiness, not presence: for
  every POST request the relay answers with status 400 and the body
  \<open>{error: 'Invalid request body'}\<close> exactly when the body is not an object with a truthy
  \<open>contents\<close> property, that is when the body is absent or falsy, has no \<open>contents\<close>,
  or has a \<open>contents\<close> that is \<open>null\<close>, \<open>false\<close>, zero or the empty string. A body
  with a truthy \<open>contents\<close> proceeds past validation. In the 400 case no outbound call
  is made.
\<close>

theorem relay_payload_validation:
  assumes "method request = ''POST''"
  shows "((statusCode (resp (handler_relay request env fetch)) = 400
           \<and> sent (resp (handler_relay request env fetch))
               = Json (JObj [(''error'', JStr ''Invalid request body'')]))
          \<longleftrightarrow> \<not> contents_truthy (body request))
       \<and> (\<not> contents_truthy (body request) \<longrightarrow>
            outbound (handler_relay request env fetch) = [])"
  using relay_400_only_if_invalid [OF assms, of env fetch] relay_invalid [OF assms, of env fetch]
  by (auto simp: error_body_def)

theorem relay_payload_validation_witness:
  "statusCode (resp (handler_relay \<lparr>method = ''POST'', body = JObj []\<rparr> key_env gemini_answers)) = 400
   \<and> sent (resp (handler_relay \<lparr>method = ''POST'', body = JObj []\<rparr> key_env gemini_answers))
       = Json (JObj [(''error'', JStr ''Invalid request body'')])
   \<and> outbound (handler_relay \<lparr>method = ''POST'', body = JObj []\<rparr> key_env gemini_answers) = []"
  using relay_payload_validation [of "\<lparr>method = ''POST'', body = JObj []\<rparr>" key_env gemini_answers]
  by simp

text \<open>
  Claim C5 as it is worded (400 exactly when the body is absent or lacks a \<open>contents\<close>
  field) fails for the body \<open>{contents: ''}\<close>: the field is there, and the relay answers
  400 all the same.
\<close>

theorem relay_empty_contents_rejected:
  "\<not> ((statusCode (resp (handler_relay
              \<lparr>method = ''POST'', body = JObj [(''contents'', JStr [])]\<rparr> key_env gemini_answers)) = 400
         \<and> sent (resp (handler_relay
              \<lparr>method = ''POST'', body = JObj [(''contents'', JStr [])]\<rparr> key_env gemini_answers))
             = Json (JObj [(''error'', JStr ''Invalid request body'')]))
        \<longleftrightarrow> (JObj [(''contents'', JStr [])] = JUndefined
             \<or> \<not> has_field (JObj [(''contents'', JStr [])]) ''contents''))"
  by (simp add: handler_relay_def response_simps error_body_def)

text \<open>
  Claim C7, as the code has it. Credential resolution: for every POST request whose body
  passes validation (an object with a truthy \<open>contents\<close> property), if the key is not
  set in the process configuration the relay answers with status 500 and the body
  \<open>{error: 'API key not configured on the server.'}\<close>, and makes no outbound call.
\<close>

theorem relay_credential_resolution:
  assumes "method request = ''POST''"
    and "contents_truthy (body request)"
    and "env ''GEMINI_API_KEY'' = None"
  shows "resp (handler_relay request env fetch) =
           \<lparr>headers = [], statusCode = 500,
            sent = Json (JObj [(''error'', JStr ''API key not configured on the server.'')])\<rparr>
       \<and> outbound (handler_relay request env fetch) = []"
  using assms by (simp add: relay_no_key error_body_def)

theorem relay_credential_resolution_witness:
  "resp (handler_relay sample_post Map.empty gemini_answers) =
     \<lparr>headers = [], statusCode = 500,
      sent = Json (JObj [(''error'', JStr ''API key not configured on the server.'')])\<rparr>
   \<and> outbound (handler_relay sample_post Map.empty gemini_answers) = []"
proof -
  have m: "method sample_post = ''POST''" by (simp add: sample_post_def)
  have c: "contents_truthy (body sample_post)" by (simp add: sample_post_def)
  have e: "(Map.empty :: string \<rightharpoonup> string) ''GEMINI_API_KEY'' = None" by simp
  show ?thesis by (rule relay_credential_resolution [OF m c e])
qed

text \<open>
  Claim C7 as it is worded (a body is valid when a \<open>contents\<close> field is present) fails
  for the body \<open>{contents: null}\<close>: the field is present, the key is not set, and the
  relay answers 400, not 500.
\<close>

theorem relay_null_contents_without_key:
  "\<not> (method \<lparr>method = ''POST'', body = JObj [(''contents'', JNull)]\<rparr> = ''POST''
        \<and> has_field (body \<lparr>method = ''POST'', body = JObj [(''contents'', JNull)]\<rparr>) ''contents''
        \<and> (Map.empty :: string \<rightharpoonup> string) ''GEMINI_API_KEY'' = None
      \<longrightarrow> statusCode (resp (handler_relay
              \<lparr>method = ''POST'', body = JObj [(''contents'', JNull)]\<rparr> Map.empty gemini_answers)) = 500
          \<and> sent (resp (handler_relay
              \<lparr>method = ''POST'', body = JObj [(''contents'', JNull)]\<rparr> Map.empty gemini_answers))
              = Json (JObj [(''error'', JStr ''API key not configured on the server.'')]))"
  by (simp add: handler_relay_def response_simps)

text \<open>
  Claim C4, as the code has it. Upstream outcome: for every invocation that reaches the
  forward step (it made the outbound call \<open>rq\<close>) and got a response \<open>r\<close>: if \<open>r\<close> has
  a non-success status and its body reads as the text \<open>t\<close>, the relay answers with the
  same status code and the body \<open>{error: 'Gemini API error: ' + t}\<close>; if \<open>r\<close> has a
  success status and its body parses as the JSON value \<open>v\<close>, the relay answers with
  status 200 and \<open>v\<close> itself; and if the body cannot be read (non-success) or parsed
  (success), the relay answers with status 500 and the body
  \<open>{error: 'Failed to fetch from Gemini API.'}\<close>.
\<close>

theorem relay_upstream_outcome:
  assumes "rq \<in> set (outbound (handler_relay request env fetch))"
    and "fetch rq = Responded r"
  shows "(\<not> ok r \<and> body_text r = Inr t \<longrightarrow>
            resp (handler_relay request env fetch) =
              \<lparr>headers = [], statusCode = status r,
               sent = Json (JObj [(''error'', JStr (''Gemini API error: '' @ t))])\<rparr>)
       \<and> (ok r \<and> body_json r = Inr v \<longrightarrow>
            resp (handler_relay request env fetch) =
              \<lparr>headers = [], statusCode = 200, sent = Json v\<rparr>)
       \<and> (\<not> ok r \<and> body_text r = Inl e \<longrightarrow>
            resp (handler_relay request env fetch) =
              \<lparr>headers = [], statusCode = 500,
               sent = Json (JObj [(''error'', JStr ''Failed to fetch from Gemini API.'')])\<rparr>)
       \<and> (ok r \<and> body_json r = Inl e' \<longrightarrow>
            resp (handler_relay request env fetch) =
              \<lparr>headers = [], statusCode = 500,
               sent = Json (JObj [(''error'', JStr ''Failed to fetch from Gemini API.'')])\<rparr>)"
proof -
  from assms(1) obtain k where fw: "method request = ''POST''" "contents_truthy (body request)"
      "env ''GEMINI_API_KEY'' = Some k" "k \<noteq> []" and rq: "rq = gemini_request k (body request)"
    by (rule relay_outbound)
  from assms(2) rq show ?thesis
    by (simp add: relay_forward [where env = env, OF fw] relay_catch_def response_simps
        error_body_def)
qed

theorem relay_upstream_outcome_witness:
  "resp (handler_relay sample_post key_env gemini_quota) =
     \<lparr>headers = [], statusCode = 503,
      sent = Json (JObj [(''error'', JStr ''Gemini API error: quota exceeded'')])\<rparr>
   \<and> resp (handler_relay sample_post key_env gemini_answers) =
     \<lparr>headers = [], statusCode = 200, sent = Json (JObj [(''candidates'', JArr [])])\<rparr>
   \<and> resp (handler_relay sample_post key_env gemini_broken) =
     \<lparr>headers = [], statusCode = 500,
      sent = Json (JObj [(''error'', JStr ''Failed to fetch from Gemini API.'')])\<rparr>
   \<and> resp (handler_relay sample_post key_env gemini_garbled) =
     \<lparr>headers = [], statusCode = 500,
      sent = Json (JObj [(''error'', JStr ''Failed to fetch from Gemini API.'')])\<rparr>"
proof -
  let ?rq = "gemini_request ''SECRET'' (body sample_post)"
  let ?down = "\<lparr>status = 503, statusText = ''Service Unavailable'',
                 body_text = Inr ''quota exceeded'',
                 body_json = Inl (Error ''Unexpected token'')\<rparr>"
  let ?up = "\<lparr>status = 200, statusText = ''OK'', body_text = Inr ''{\"candidates\":[]}'',
               body_json = Inr (JObj [(''candidates'', JArr [])])\<rparr>"
  let ?broken = "\<lparr>status = 502, statusText = ''Bad Gateway'',
                   body_text = Inl (Error ''terminated''),
                   body_json = Inl (Error ''terminated'')\<rparr>"
  let ?garbled = "\<lparr>status = 200, statusText = ''OK'', body_text = Inr ''<html>'',
                    body_json = Inl (Error ''Unexpected token'')\<rparr>"
  have o1: "?rq \<in> set (outbound (handler_relay sample_post key_env gemini_quota))"
    and o2: "?rq \<in> set (outbound (handler_relay sample_post key_env gemini_answers))"
    and o3: "?rq \<in> set (outbound (handler_relay sample_post key_env gemini_broken))"
    and o4: "?rq \<in> set (outbound (handler_relay sample_post key_env gemini_garbled))"
    by (simp_all add: relay_sample_outbound)
  have f1: "gemini_quota ?rq = Responded ?down"
    by (simp add: gemini_quota_def text_reply_def)
  have f2: "gemini_answers ?rq = Responded ?up"
    by (simp add: gemini_answers_def json_reply_def)
  have f3: "gemini_broken ?rq = Responded ?broken"
    by (simp add: gemini_broken_def)
  have f4: "gemini_garbled ?rq = Responded ?garbled"
    by (simp add: gemini_garbled_def text_reply_def)
  from relay_upstream_outcome [OF o1 f1, of "''quota exceeded''"]
    relay_upstream_outcome [OF o2 f2, of _ "JObj [(''candidates'', JArr [])]"]
    relay_upstream_outcome [OF o3 f3, of _ _ "Error ''terminated''"]
    relay_upstream_outcome [OF o4 f4, of _ _ _ "Error ''Unexpected token''"]
  show ?thesis by (simp add: ok_def)
qed

text \<open>
  Claim C4 as it is worded (a success status is answered with 200 and the parsed body,
  with no condition on the body) fails when the upstream answers 200 over a body that
  is no JSON: the call was made, the status is a success, and the relay answers 500.
\<close>

theorem relay_unparseable_success_answered_500:
  "\<not> (gemini_request ''SECRET'' (body sample_post)
          \<in> set (outbound (handler_relay sample_post key_env gemini_garbled))
        \<and> gemini_garbled (gemini_request ''SECRET'' (body sample_post)) =
            Responded \<lparr>status = 200, statusText = ''OK'', body_text = Inr ''<html>'',
                        body_json = Inl (Error ''Unexpected token'')\<rparr>
        \<and> ok \<lparr>status = 200, statusText = ''OK'', body_text = Inr ''<html>'',
               body_json = Inl (Error ''Unexpected token'')\<rparr>
      \<longrightarrow> statusCode (resp (handler_relay sample_post key_env gemini_garbled)) = 200)"
  by (simp add: handler_relay_def sample_post_def key_env_def gemini_garbled_def text_reply_def
      ok_def relay_catch_def response_simps)

text \<open>
  Claim C8. Network failure: for every invocation in which the outbound call itself
  rejects, the relay answers with status 500 and exactly the body
  \<open>{error: 'Failed to fetch from Gemini API.'}\<close>; nothing of the failure \<open>e\<close> is in the
  response.
\<close>

theorem relay_network_failure:
  assumes "rq \<in> set (outbound (handler_relay request env fetch))"
    and "fetch rq = Rejected e"
  shows "resp (handler_relay request env fetch) =
           \<lparr>headers = [], statusCode = 500,
            sent = Json (JObj [(''error'', JStr ''Failed to fetch from Gemini API.'')])\<rparr>"
proof -
  from assms(1) obtain k where fw: "method request = ''POST''" "contents_truthy (body request)"
      "env ''GEMINI_API_KEY'' = Some k" "k \<noteq> []" and rq: "rq = gemini_request k (body request)"
    by (rule relay_outbound)
  from assms(2) rq show ?thesis
    by (simp add: relay_forward [where env = env, OF fw] relay_catch_def response_simps
        error_body_def)
qed

theorem relay_network_failure_witness:
  "resp (handler_relay sample_post key_env gemini_unreachable) =
     \<lparr>headers = [], statusCode = 500,
      sent = Json (JObj [(''error'', JStr ''Failed to fetch from Gemini API.'')])\<rparr>"
proof -
  have o: "gemini_request ''SECRET'' (body sample_post)
             \<in> set (outbound (handler_relay sample_post key_env gemini_unreachable))"
    by (simp add: relay_sample_outbound)
  have f: "gemini_unreachable (gemini_request ''SECRET'' (body sample_post))
             = Rejected (Error ''fetch failed'')"
    by (simp add: gemini_unreachable_def)
  show ?thesis by (rule relay_network_failure [OF o f])
qed

text \<open>
  Claim C3. No response of the relay contains the configured credential; the source says
  so itself (``This key is NEVER exposed to the frontend''). The code does not keep this:
  it forwards the upstream's error text unscrubbed. Run with the key \<open>SECRET\<close> against an
  upstream that answers 400 with an error text repeating the URL it was called with, the
  relay sends a 400 response whose \<open>error\<close> string ends in \<open>?key=SECRET\<close>.
\<close>

theorem relay_forwards_echoed_credential:
  "key_env ''GEMINI_API_KEY'' = Some ''SECRET''
   \<and> resp (handler_relay sample_post key_env gemini_echo) =
       \<lparr>headers = [], statusCode = 400,
        sent = Json (JObj [(''error'',
                 JStr (''Gemini API error: '' @ GEMINI_ENDPOINT @ ''SECRET''))])\<rparr>
   \<and> str_includes (''Gemini API error: '' @ GEMINI_ENDPOINT @ ''SECRET'') ''SECRET''"
  by (simp add: key_env_def handler_relay_def sample_post_def gemini_echo_def text_reply_def
      ok_def response_simps error_body_def gemini_request_def GEMINI_ENDPOINT_def)

text \<open>
  The run above is on the forward path: the request is a POST whose \<open>contents\<close> is
  truthy, the key is set, and the status sent is the upstream's 400.
\<close>

theorem relay_forwards_echoed_credential_witness:
  "method sample_post = ''POST''
   \<and> truthy (body sample_post) \<and> truthy (member (body sample_post) ''contents'')
   \<and> key_env ''GEMINI_API_KEY'' = Some ''SECRET''
   \<and> statusCode (resp (handler_relay sample_post key_env gemini_echo)) = 400
   \<and> sent (resp (handler_relay sample_post key_env gemini_echo)) =
       Json (JObj [(''error'', JStr (''Gemini API error: '' @ GEMINI_ENDPOINT @ ''SECRET''))])"
  using relay_forwards_echoed_credential by (simp add: sample_post_def)

end
